theory Spec2Isabelle
  imports
    Complex_Main
    "HOL-Library.Char_ord"
    "HOL-Library.List_Lexorder"
    "HOL-Library.Multiset"
begin

section \<open>The SQL date function used by the summaries\<close>

text \<open>
  Both summary queries of \<^verbatim>\<open>expense_manager.py\<close> select the rows of the current month with
  \<^verbatim>\<open>WHERE strftime('%Y-%m', date) = ?\<close>. The month of a row is therefore whatever
  SQLite's \<^verbatim>\<open>strftime\<close> makes of the stored text, and SQL \<^verbatim>\<open>NULL\<close> (here \<open>None\<close>) when
  SQLite does not accept the text as a time value. This section follows SQLite's
  \<^verbatim>\<open>date.c\<close> (as of version 3.46) for a call with a text argument and no modifier: the
  text formats \<^verbatim>\<open>YYYY-MM-DD\<close>, \<^verbatim>\<open>YYYY-MM-DD HH:MM[:SS[.FFF]]\<close>, \<^verbatim>\<open>HH:MM[:SS[.FFF]]\<close>
  (each time with an optional time zone), the word \<^verbatim>\<open>now\<close>, and a Julian day number.
  Text is a list of bytes. The double-precision steps of \<^verbatim>\<open>date.c\<close> are written in exact
  integer arithmetic.
\<close>

definition sqlite3Isspace :: "char \<Rightarrow> bool" where
  "sqlite3Isspace c =
     (c = CHR '' '' \<or> c = CHR 0x09 \<or> c = CHR 0x0A \<or> c = CHR 0x0B \<or> c = CHR 0x0C \<or> c = CHR 0x0D)"

definition sqlite3Isdigit :: "char \<Rightarrow> bool" where
  "sqlite3Isdigit c = (CHR ''0'' \<le> c \<and> c \<le> CHR ''9'')"

definition digit_value :: "char \<Rightarrow> int" where
  "digit_value c = int (of_char c) - 48"

text \<open>C's integer division truncates towards zero.\<close>

definition c_div :: "int \<Rightarrow> int \<Rightarrow> int" where
  "c_div a b = sgn a * sgn b * (\<bar>a\<bar> div \<bar>b\<bar>)"

text \<open>
  \<^verbatim>\<open>getDigits\<close> reads groups of exactly \<open>N\<close> digits whose value lies between \<open>lo\<close> and
  \<open>hi\<close>, each followed by a fixed character except the last. \<open>read_digits\<close> is its inner
  loop and \<open>getDigits\<close> one group; the result is the value and the text after the group.
\<close>

fun read_digits :: "nat \<Rightarrow> int \<Rightarrow> string \<Rightarrow> (int \<times> string) option" where
  "read_digits 0 val z = Some (val, z)"
| "read_digits (Suc n) val [] = None"
| "read_digits (Suc n) val (c # z) =
     (if sqlite3Isdigit c then read_digits n (val * 10 + digit_value c) z else None)"

definition getDigits :: "nat \<Rightarrow> int \<Rightarrow> int \<Rightarrow> char option \<Rightarrow> string \<Rightarrow> (int \<times> string) option" where
  "getDigits N lo hi nextC z =
     (case read_digits N 0 z of
        None \<Rightarrow> None
      | Some (val, r) \<Rightarrow>
          if val < lo \<or> val > hi then None
          else (case nextC of
                  None \<Rightarrow> Some (val, r)
                | Some c \<Rightarrow>
                    (case r of
                       [] \<Rightarrow> None
                     | c' # r' \<Rightarrow> if c' = c then Some (val, r') else None)))"

text \<open>
  \<^verbatim>\<open>parseTimezone\<close>: nothing, \<^verbatim>\<open>Z\<close>, or \<^verbatim>\<open>(+|-)HH:MM\<close>, with white space around it and
  nothing after it. The result is the offset in minutes.
\<close>

definition parseTimezone :: "string \<Rightarrow> int option" where
  "parseTimezone zDate =
     (case dropWhile sqlite3Isspace zDate of
        [] \<Rightarrow> Some 0
      | c # z \<Rightarrow>
          if c = CHR ''-'' \<or> c = CHR ''+'' then
            (case getDigits 2 0 14 (Some CHR '':'') z of
               None \<Rightarrow> None
             | Some (nHr, z1) \<Rightarrow>
                 (case getDigits 2 0 59 None z1 of
                    None \<Rightarrow> None
                  | Some (nMn, z2) \<Rightarrow>
                      if dropWhile sqlite3Isspace z2 = []
                      then Some ((if c = CHR ''-'' then - 1 else 1) * (nMn + nHr * 60))
                      else None))
          else if c = CHR ''Z'' \<or> c = CHR ''z'' then
            (if dropWhile sqlite3Isspace z = [] then Some 0 else None)
          else None)"

text \<open>
  The fractional part of the seconds: the digits after the point, as numerator and
  number of digits.
\<close>

definition digits_value :: "string \<Rightarrow> int" where
  "digits_value ds = foldl (\<lambda>v c. v * 10 + digit_value c) 0 ds"

text \<open>
  \<^verbatim>\<open>parseHhMmSs\<close>: \<^verbatim>\<open>HH:MM\<close>, \<^verbatim>\<open>HH:MM:SS\<close> or \<^verbatim>\<open>HH:MM:SS.FFFF\<close>, then a time zone. The
  result is the time of day in milliseconds, \<^verbatim>\<open>h*3600000 + m*60000 + (int)(s*1000 + 0.5)\<close>,
  and the time zone in minutes.
\<close>

definition parseHhMmSs :: "string \<Rightarrow> (int \<times> int) option" where
  "parseHhMmSs zDate =
     (case getDigits 2 0 24 (Some CHR '':'') zDate of
        None \<Rightarrow> None
      | Some (h, z1) \<Rightarrow>
          (case getDigits 2 0 59 None z1 of
             None \<Rightarrow> None
           | Some (m, z2) \<Rightarrow>
               (case z2 of
                  c # z3 \<Rightarrow>
                    if c = CHR '':'' then
                      (case getDigits 2 0 59 None z3 of
                         None \<Rightarrow> None
                       | Some (s, z4) \<Rightarrow>
                           (case z4 of
                              d # e # z5 \<Rightarrow>
                                if d = CHR ''.'' \<and> sqlite3Isdigit e then
                                  (let fs = takeWhile sqlite3Isdigit (e # z5);
                                       rScale = 10 ^ length fs;
                                       ms = s * 1000 + (2000 * digits_value fs + rScale) div (2 * rScale)
                                   in map_option (\<lambda>tz. (h * 3600000 + m * 60000 + ms, tz))
                                        (parseTimezone (dropWhile sqlite3Isdigit (e # z5))))
                                else map_option (\<lambda>tz. (h * 3600000 + m * 60000 + s * 1000, tz))
                                       (parseTimezone z4)
                            | _ \<Rightarrow> map_option (\<lambda>tz. (h * 3600000 + m * 60000 + s * 1000, tz))
                                    (parseTimezone z4)))
                    else map_option (\<lambda>tz. (h * 3600000 + m * 60000, tz)) (parseTimezone z2)
                | [] \<Rightarrow> map_option (\<lambda>tz. (h * 3600000 + m * 60000, tz)) (parseTimezone z2))))"

text \<open>
  \<^verbatim>\<open>parseYyyyMmDd\<close>: an optional minus sign, \<^verbatim>\<open>YYYY-MM-DD\<close> with the month in 1..12 and the
  day in 1..31 (whatever the month), then white space or \<^verbatim>\<open>T\<close>, then a time or nothing.
\<close>

definition parseYyyyMmDd :: "string \<Rightarrow> (int \<times> int \<times> int \<times> (int \<times> int) option) option" where
  "parseYyyyMmDd zDate =
     (let neg = (case zDate of c # _ \<Rightarrow> c = CHR ''-'' | [] \<Rightarrow> False);
          z0 = (if neg then tl zDate else zDate)
      in case getDigits 4 0 14712 (Some CHR ''-'') z0 of
           None \<Rightarrow> None
         | Some (Y, z1) \<Rightarrow>
             (case getDigits 2 1 12 (Some CHR ''-'') z1 of
                None \<Rightarrow> None
              | Some (M, z2) \<Rightarrow>
                  (case getDigits 2 1 31 None z2 of
                     None \<Rightarrow> None
                   | Some (D, z3) \<Rightarrow>
                       (let z4 = dropWhile (\<lambda>c. sqlite3Isspace c \<or> c = CHR ''T'') z3
                        in case parseHhMmSs z4 of
                             Some t \<Rightarrow> Some (if neg then - Y else Y, M, D, Some t)
                           | None \<Rightarrow>
                               if z4 = [] then Some (if neg then - Y else Y, M, D, None)
                               else None))))"

text \<open>
  \<^verbatim>\<open>computeJD\<close> for a year, month and day: the Julian day at midnight, in milliseconds
  (\<^verbatim>\<open>(X1 + X2 + D + B - 1524.5) * 86400000\<close>).
\<close>

definition computeJD :: "int \<Rightarrow> int \<Rightarrow> int \<Rightarrow> int" where
  "computeJD Y0 M0 D =
     (let Y = (if M0 \<le> 2 then Y0 - 1 else Y0);
          M = (if M0 \<le> 2 then M0 + 12 else M0);
          A = c_div Y 100;
          B = 2 - A + c_div A 4;
          X1 = c_div (36525 * (Y + 4716)) 100;
          X2 = c_div (306001 * (M + 1)) 10000
      in (X1 + X2 + D + B) * 86400000 - 131716800000)"

definition validJulianDay :: "int \<Rightarrow> bool" where
  "validJulianDay iJD = (0 \<le> iJD \<and> iJD \<le> 464269060799999)"

text \<open>
  \<^verbatim>\<open>computeYMD\<close>: year and month of a Julian day in milliseconds. The source computes
  \<^verbatim>\<open>(int)((Z - 1867216.25)/36524.25)\<close>, \<^verbatim>\<open>(int)((B - 122.1)/365.25)\<close>,
  \<^verbatim>\<open>(int)((B-D)/30.6001)\<close> and \<^verbatim>\<open>(int)(30.6001*E)\<close>; \<^verbatim>\<open>C & 32767\<close> is \<open>C mod 32768\<close>.
\<close>

definition computeYMD :: "int \<Rightarrow> int \<times> int" where
  "computeYMD iJD =
     (let Z = c_div (iJD + 43200000) 86400000;
          A0 = c_div (100 * Z - 186721625) 3652425;
          A = Z + 1 + A0 - c_div A0 4;
          B = A + 1524;
          C = c_div (100 * B - 12210) 36525;
          D = c_div (36525 * (C mod 32768)) 100;
          E = c_div (10000 * (B - D)) 306001;
          M = (if E < 14 then E - 1 else E - 13);
          Y = (if M > 2 then C - 4716 else C - 4715)
      in (Y, M))"

text \<open>\<^verbatim>\<open>printf\<close>'s \<^verbatim>\<open>%04d\<close> and \<^verbatim>\<open>%02d\<close>: decimal digits, padded with zeros to the width,
  the sign counting towards the width.\<close>

fun decimal :: "nat \<Rightarrow> string" where
  "decimal n =
     (if n < 10 then [char_of (48 + n)] else decimal (n div 10) @ [char_of (48 + n mod 10)])"

declare decimal.simps [simp del]

definition printf_0d :: "nat \<Rightarrow> int \<Rightarrow> string" where
  "printf_0d width v =
     (let ds = decimal (nat \<bar>v\<bar>);
          sign = (if v < 0 then ''-'' else '''')
      in sign @ replicate (width - length sign - length ds) CHR ''0'' @ ds)"

definition format_Ym :: "int \<times> int \<Rightarrow> string" where
  "format_Ym ym = printf_0d 4 (fst ym) @ ''-'' @ printf_0d 2 (snd ym)"

text \<open>
  \<^verbatim>\<open>sqlite3AtoF\<close>, as far as \<^verbatim>\<open>parseDateOrTime\<close> uses it: the text is a number when it is
  white space, an optional sign, digits with an optional point, an optional exponent
  with at least one digit, white space, and has at least one digit before the exponent.
  The result is the value as a fraction: numerator and (positive) denominator.
\<close>

definition sqlite3AtoF :: "string \<Rightarrow> (int \<times> int) option" where
  "sqlite3AtoF z =
     (let z1 = dropWhile sqlite3Isspace z;
          sign = (case z1 of c # _ \<Rightarrow> if c = CHR ''-'' then - 1 else 1 | [] \<Rightarrow> 1);
          z2 = (case z1 of c # r \<Rightarrow> if c = CHR ''-'' \<or> c = CHR ''+'' then r else z1 | [] \<Rightarrow> z1);
          ip = takeWhile sqlite3Isdigit z2;
          z3 = dropWhile sqlite3Isdigit z2;
          point = (case z3 of c # _ \<Rightarrow> c = CHR ''.'' | [] \<Rightarrow> False);
          fp = (if point then takeWhile sqlite3Isdigit (tl z3) else []);
          z4 = (if point then dropWhile sqlite3Isdigit (tl z3) else z3);
          expo = (case z4 of c # _ \<Rightarrow> c = CHR ''e'' \<or> c = CHR ''E'' | [] \<Rightarrow> False);
          z5 = (if expo then tl z4 else z4);
          esign = (case z5 of c # _ \<Rightarrow> if expo \<and> c = CHR ''-'' then - 1 else 1 | [] \<Rightarrow> 1);
          z6 = (case z5 of
                  c # r \<Rightarrow> if expo \<and> (c = CHR ''-'' \<or> c = CHR ''+'') then r else z5
                | [] \<Rightarrow> z5);
          ep = (if expo then takeWhile sqlite3Isdigit z6 else []);
          z7 = (if expo then dropWhile sqlite3Isdigit z6 else z6);
          e = esign * digits_value ep - int (length fp)
      in if z1 = [] \<or> ip @ fp = [] \<or> (expo \<and> ep = []) \<or> dropWhile sqlite3Isspace z7 \<noteq> []
         then None
         else Some (sign * digits_value (ip @ fp) * 10 ^ nat e, 10 ^ nat (- e)))"

definition sqlite3UpperToLower :: "char \<Rightarrow> char" where
  "sqlite3UpperToLower c =
     (if CHR ''A'' \<le> c \<and> c \<le> CHR ''Z'' then char_of (of_char c + (32::nat)) else c)"

text \<open>
  \<open>strftime_Ym now text\<close> is \<^verbatim>\<open>strftime('%Y-%m', text)\<close>; \<open>now\<close> is the clock of the
  statement, a Julian day in milliseconds. The steps are those of \<^verbatim>\<open>isDate\<close>,
  \<^verbatim>\<open>parseDateOrTime\<close> and \<^verbatim>\<open>strftimeFunc\<close>:
  \<^item> the text ends at its first zero byte (it is read as a C string);
  \<^item> a date: the year must be at least -4713 and the Julian day valid; without a time
    zone and with a day up to 28 the year and month are the ones read; otherwise
    (a time zone moves the instant, a day from 29 on is normalised) they are
    computed back from the Julian day;
  \<^item> a time alone is a time on 2000-01-01;
  \<^item> \<^verbatim>\<open>now\<close> in any case of letters is the clock;
  \<^item> a number \<open>r\<close> with \<open>0 \<le> r < 5373484.5\<close> is a Julian day;
  \<^item> \<^verbatim>\<open>subsec\<close> and \<^verbatim>\<open>subsecond\<close> are the clock as well;
  \<^item> anything else is NULL.
\<close>

definition ym_of_jd :: "int \<Rightarrow> string option" where
  "ym_of_jd iJD = (if validJulianDay iJD then Some (format_Ym (computeYMD iJD)) else None)"

definition strftime_Ym :: "int \<Rightarrow> string \<Rightarrow> string option" where
  "strftime_Ym now text =
     (let zDate = takeWhile (\<lambda>c. c \<noteq> CHR 0x00) text in
      case parseYyyyMmDd zDate of
        Some (Y, M, D, t) \<Rightarrow>
          if Y < - 4713 \<or> Y > 9999 then None
          else
            (case t of
               None \<Rightarrow>
                 if D \<le> 28
                 then (if validJulianDay (computeJD Y M D) then Some (format_Ym (Y, M)) else None)
                 else ym_of_jd (computeJD Y M D)
             | Some (ms, tz) \<Rightarrow>
                 if tz = 0 \<and> D \<le> 28
                 then (if validJulianDay (computeJD Y M D + ms)
                       then Some (format_Ym (Y, M)) else None)
                 else ym_of_jd (computeJD Y M D + ms - tz * 60000))
      | None \<Rightarrow>
          (case parseHhMmSs zDate of
             Some (ms, tz) \<Rightarrow> ym_of_jd (computeJD 2000 1 1 + ms - tz * 60000)
           | None \<Rightarrow>
               if map sqlite3UpperToLower zDate = ''now'' then
                 (if now > 0 then ym_of_jd now else None)
               else
                 (case sqlite3AtoF zDate of
                    Some (p, q) \<Rightarrow>
                      if 0 \<le> p \<and> 2 * p < 10746969 * q
                      then ym_of_jd ((2 * p * 86400000 + q) div (2 * q))
                      else None
                  | None \<Rightarrow>
                      if map sqlite3UpperToLower zDate \<in> {''subsec'', ''subsecond''} then
                        (if now > 0 then ym_of_jd now else None)
                      else None)))"

section \<open>The persisted relations\<close>

text \<open>
  The two tables of \<^verbatim>\<open>init_db\<close>. A row of \<^verbatim>\<open>expenses\<close> has the integer key \<^verbatim>\<open>id\<close>, three
  texts and a \<^verbatim>\<open>REAL\<close> amount; a row of \<^verbatim>\<open>budget\<close> a text key and a \<^verbatim>\<open>REAL\<close> amount.
  \<^verbatim>\<open>REAL\<close> values are taken as real numbers (rounding is not modelled). The rows of a
  table are listed in the order of a table scan, which for \<^verbatim>\<open>expenses\<close> is the order of
  \<^verbatim>\<open>id\<close>. \<open>seq\<close> is the counter that \<^verbatim>\<open>AUTOINCREMENT\<close> keeps in \<^verbatim>\<open>sqlite_sequence\<close>: the
  largest \<^verbatim>\<open>id\<close> ever given to a row of \<^verbatim>\<open>expenses\<close>, 0 before the first insert.
\<close>

record expense =
  eid :: int
  date :: string
  category :: string
  amount :: real
  note_text :: string

record budget_row =
  month :: string
  budget_amount :: real

record store =
  expenses :: "expense list"
  seq :: int
  budget :: "budget_row list"

text \<open>
  What an operation raises: Python's \<^verbatim>\<open>sqlite3\<close> module refuses to bind an \<^verbatim>\<open>int\<close> outside
  the signed 64-bit range (\<^verbatim>\<open>OverflowError\<close>), and SQLite refuses an \<^verbatim>\<open>AUTOINCREMENT\<close>
  insert once the largest key has been used (\<^verbatim>\<open>SQLITE_FULL\<close>, "database or disk is full").
  Neither is caught by the program; the statement changes nothing.
\<close>

datatype error = OverflowError | DatabaseFull

definition MAX_ROWID :: int where
  "MAX_ROWID = 9223372036854775807"

text \<open>
  \<^verbatim>\<open>init_db\<close>: \<^verbatim>\<open>CREATE TABLE IF NOT EXISTS\<close>, twice. Without a database file (\<open>None\<close>)
  both tables are created empty; an existing database is left as it is.
\<close>

definition init_db :: "store option \<Rightarrow> store" where
  "init_db file =
     (case file of
        None \<Rightarrow> \<lparr>expenses = [], seq = 0, budget = []\<rparr>
      | Some s \<Rightarrow> s)"

text \<open>
  \<^verbatim>\<open>add_expense\<close>, from the \<^verbatim>\<open>INSERT\<close> on: the arguments are the four values bound to the
  statement (the console lines after \<^verbatim>\<open>strip()\<close>, today's date for an empty date line,
  the number that \<^verbatim>\<open>input_float\<close> returned). With \<^verbatim>\<open>AUTOINCREMENT\<close> the new key is one more
  than the largest of \<open>seq\<close> and the keys in the table, and \<open>seq\<close> becomes the new key.
\<close>

definition next_rowid :: "store \<Rightarrow> int" where
  "next_rowid s = fold max (map eid (expenses s)) (seq s) + 1"

definition add_expense :: "string \<Rightarrow> string \<Rightarrow> real \<Rightarrow> string \<Rightarrow> store \<Rightarrow> error + store" where
  "add_expense date_str category_str amount_val note_str s =
     (if next_rowid s > MAX_ROWID then Inl DatabaseFull
      else Inr (s\<lparr>expenses := expenses s @
                     [\<lparr>eid = next_rowid s, date = date_str, category = category_str,
                       amount = amount_val, note_text = note_str\<rparr>],
                   seq := next_rowid s\<rparr>))"

text \<open>
  \<^verbatim>\<open>set_monthly_budget\<close>: \<^verbatim>\<open>INSERT ... ON CONFLICT(month) DO UPDATE SET amount =
  excluded.amount\<close>. The row with the key gets the new amount; without such a row a new
  one is added. \<open>month_key\<close> is what \<^verbatim>\<open>get_current_month_key\<close> returned.
\<close>

fun upsert_budget :: "string \<Rightarrow> real \<Rightarrow> budget_row list \<Rightarrow> budget_row list" where
  "upsert_budget month_key amount_val [] = [\<lparr>month = month_key, budget_amount = amount_val\<rparr>]"
| "upsert_budget month_key amount_val (r # rs) =
     (if month r = month_key then r\<lparr>budget_amount := amount_val\<rparr> # rs
      else r # upsert_budget month_key amount_val rs)"

definition set_monthly_budget :: "string \<Rightarrow> real \<Rightarrow> store \<Rightarrow> store" where
  "set_monthly_budget month_key amount_val s =
     s\<lparr>budget := upsert_budget month_key amount_val (budget s)\<rparr>"

text \<open>
  \<^verbatim>\<open>view_all_expenses\<close>: the rows of \<^verbatim>\<open>SELECT ... FROM expenses ORDER BY date\<close>. Texts are
  compared byte by byte, a proper prefix first (the order of \<open>HOL-Library.List_Lexorder\<close>
  over \<open>HOL-Library.Char_ord\<close>). SQL leaves the order of rows with equal dates open; here
  they keep the order of the table.
\<close>

definition view_all_expenses :: "store \<Rightarrow> expense list" where
  "view_all_expenses s = sort_key date (expenses s)"

text \<open>
  \<^verbatim>\<open>delete_expense\<close>, from the \<^verbatim>\<open>DELETE\<close> on: \<open>expense_id\<close> is the Python \<^verbatim>\<open>int\<close> read from
  the console. The result is the new store and \<^verbatim>\<open>cur.rowcount\<close>, the number of rows
  deleted.
\<close>

definition delete_expense :: "int \<Rightarrow> store \<Rightarrow> error + (store \<times> nat)" where
  "delete_expense expense_id s =
     (if expense_id < - MAX_ROWID - 1 \<or> expense_id > MAX_ROWID then Inl OverflowError
      else Inr (s\<lparr>expenses := filter (\<lambda>e. eid e \<noteq> expense_id) (expenses s)\<rparr>,
                length (filter (\<lambda>e. eid e = expense_id) (expenses s))))"

text \<open>
  \<^verbatim>\<open>view_month_summary\<close>. \<open>month_rows\<close> are the rows that pass
  \<^verbatim>\<open>WHERE strftime('%Y-%m', date) = ?\<close>; \<^verbatim>\<open>SUM\<close> over no rows is NULL, which the program
  replaces by 0.0. The budget is the amount of the first row of
  \<^verbatim>\<open>SELECT amount FROM budget WHERE month = ?\<close>, if there is one. The three printed
  outcomes are the values of \<open>budget_status\<close>.
\<close>

definition month_rows :: "int \<Rightarrow> string \<Rightarrow> store \<Rightarrow> expense list" where
  "month_rows now month_key s =
     filter (\<lambda>e. strftime_Ym now (date e) = Some month_key) (expenses s)"



definition budget_amount_for :: "string \<Rightarrow> store \<Rightarrow> real option" where
  "budget_amount_for month_key s =
     (case filter (\<lambda>r. month r = month_key) (budget s) of
        [] \<Rightarrow> None
      | row # _ \<Rightarrow> Some (budget_amount row))"







text \<open>
  A session at the menu is a list of operations. An operation that raises ends the
  program without a commit; the database file is as before and the next operation
  (after a restart) finds it so. \<open>run\<close> returns the final store and the keys that the
  inserts were given, in order.
\<close>

datatype operation =
    Add string string real string
  | Delete int
  | SetBudget string real

fun run :: "operation list \<Rightarrow> store \<Rightarrow> store \<times> int list" where
  "run [] s = (s, [])"
| "run (Add d c a n # ops) s =
     (case add_expense d c a n s of
        Inl _ \<Rightarrow> run ops s
      | Inr s' \<Rightarrow> (fst (run ops s'), next_rowid s # snd (run ops s')))"
| "run (Delete i # ops) s =
     (case delete_expense i s of
        Inl _ \<Rightarrow> run ops s
      | Inr (s', _) \<Rightarrow> run ops s')"
| "run (SetBudget k a # ops) s = run ops (set_monthly_budget k a s)"

text \<open>
  What the schema guarantees of a database that only this program has written: the
  keys of \<^verbatim>\<open>expenses\<close> are distinct (\<^verbatim>\<open>PRIMARY KEY\<close>) and none is above the counter
  (\<^verbatim>\<open>AUTOINCREMENT\<close>); the months of \<^verbatim>\<open>budget\<close> are distinct (\<^verbatim>\<open>PRIMARY KEY\<close>).
\<close>

definition store_ok :: "store \<Rightarrow> bool" where
  "store_ok s =
     (distinct (map eid (expenses s)) \<and> (\<forall>e \<in> set (expenses s). eid e \<le> seq s) \<and>
      distinct (map month (budget s)))"





section \<open>Keys given by the store\<close>

lemma fold_max_ge_init: "(a::int) \<le> fold max xs a"
proof (induction xs arbitrary: a)
  case Nil
  show ?case by simp
next
  case (Cons x xs)
  have "a \<le> max x a" by simp
  also have "\<dots> \<le> fold max xs (max x a)" by (rule Cons.IH)
  finally show ?case by simp
qed

lemma fold_max_ge_elem: "x \<in> set xs \<Longrightarrow> (x::int) \<le> fold max xs a"
proof (induction xs arbitrary: a)
  case Nil
  then show ?case by simp
next
  case (Cons y ys)
  show ?case
  proof (cases "x = y")
    case True
    have "x \<le> max y a" using True by simp
    also have "\<dots> \<le> fold max ys (max y a)" by (rule fold_max_ge_init)
    finally show ?thesis by simp
  next
    case False
    with Cons.prems have "x \<in> set ys" by simp
    then show ?thesis using Cons.IH by simp
  qed
qed

lemma next_rowid_gt_seq: "seq s < next_rowid s"
  using fold_max_ge_init [of "seq s" "map eid (expenses s)"] by (simp add: next_rowid_def)

lemma next_rowid_gt_eid: "e \<in> set (expenses s) \<Longrightarrow> eid e < next_rowid s"
  using fold_max_ge_elem [of "eid e" "map eid (expenses s)" "seq s"] by (simp add: next_rowid_def)

lemma add_expense_Inr:
  "add_expense d c a n s = Inr s' \<Longrightarrow>
     s' = s\<lparr>expenses := expenses s @
               [\<lparr>eid = next_rowid s, date = d, category = c, amount = a, note_text = n\<rparr>],
            seq := next_rowid s\<rparr>"
  by (simp add: add_expense_def split: if_splits)

lemma delete_expense_Inr:
  "delete_expense i s = Inr (s', k) \<Longrightarrow>
     s' = s\<lparr>expenses := filter (\<lambda>e. eid e \<noteq> i) (expenses s)\<rparr> \<and>
     k = length (filter (\<lambda>e. eid e = i) (expenses s))"
  by (auto simp add: delete_expense_def split: if_splits)

section \<open>The budget judgement\<close>


section \<open>Listing\<close>

text \<open>
  Claim C5. The list operation returns all stored records (as a multiset, exactly the
  rows of the table), in ascending order of \<open>date\<close> under the byte-wise lexicographic
  order of strings, and returns the empty list when the table is empty.
\<close>

theorem view_all_expenses_ordered:
  "sorted (map date (view_all_expenses s)) \<and>
   mset (view_all_expenses s) = mset (expenses s) \<and>
   view_all_expenses (s\<lparr>expenses := []\<rparr>) = []"
  by (simp add: view_all_expenses_def)

section \<open>One relation per operation\<close>

text \<open>
  Claim C9. Setting a budget leaves the expenses (rows and key counter) unchanged; an
  add or a delete of an expense that goes through leaves the budget relation
  unchanged. (One that raises returns no new store at all.)
\<close>

theorem one_relation_per_call:
  "expenses (set_monthly_budget k b s) = expenses s \<and>
   seq (set_monthly_budget k b s) = seq s \<and>
   (\<forall>s'. add_expense d c a n s = Inr s' \<longrightarrow> budget s' = budget s) \<and>
   (\<forall>s' cnt. delete_expense i s = Inr (s', cnt) \<longrightarrow> budget s' = budget s)"
  by (auto simp add: set_monthly_budget_def dest!: add_expense_Inr delete_expense_Inr)

theorem one_relation_per_call_witness:
  "add_expense ''2025-12-05'' ''Food'' 150 ''lunch''
       \<lparr>expenses = [], seq = 0, budget = [\<lparr>month = ''2025-12'', budget_amount = 1000\<rparr>]\<rparr>
     = Inr \<lparr>expenses = [\<lparr>eid = 1, date = ''2025-12-05'', category = ''Food'', amount = 150,
                           note_text = ''lunch''\<rparr>],
            seq = 1, budget = [\<lparr>month = ''2025-12'', budget_amount = 1000\<rparr>]\<rparr> \<and>
   delete_expense 1
       \<lparr>expenses = [\<lparr>eid = 1, date = ''2025-12-05'', category = ''Food'', amount = 150,
                      note_text = ''lunch''\<rparr>],
        seq = 1, budget = [\<lparr>month = ''2025-12'', budget_amount = 1000\<rparr>]\<rparr>
     = Inr (\<lparr>expenses = [], seq = 1,
             budget = [\<lparr>month = ''2025-12'', budget_amount = 1000\<rparr>]\<rparr>, 1) \<and>
   budget \<lparr>expenses = [], seq = 1, budget = [\<lparr>month = ''2025-12'', budget_amount = 1000\<rparr>]\<rparr>
     = budget \<lparr>expenses = [\<lparr>eid = 1, date = ''2025-12-05'', category = ''Food'', amount = 150,
                              note_text = ''lunch''\<rparr>],
               seq = 1, budget = [\<lparr>month = ''2025-12'', budget_amount = 1000\<rparr>]\<rparr>"
proof -
  let ?b = "[\<lparr>month = ''2025-12'', budget_amount = 1000\<rparr>]"
  let ?e = "\<lparr>eid = 1, date = ''2025-12-05'', category = ''Food'', amount = 150,
             note_text = ''lunch''\<rparr>"
  have add: "add_expense ''2025-12-05'' ''Food'' 150 ''lunch'' \<lparr>expenses = [], seq = 0, budget = ?b\<rparr>
               = Inr \<lparr>expenses = [?e], seq = 1, budget = ?b\<rparr>"
    by (simp add: add_expense_def next_rowid_def MAX_ROWID_def)
  have del: "delete_expense 1 \<lparr>expenses = [?e], seq = 1, budget = ?b\<rparr>
               = Inr (\<lparr>expenses = [], seq = 1, budget = ?b\<rparr>, 1)"
    by (simp add: delete_expense_def MAX_ROWID_def)
  from one_relation_per_call [of "''2025-12''" 0 "\<lparr>expenses = [?e], seq = 1, budget = ?b\<rparr>"
      "''x''" "''y''" 0 "''z''" 1] del
  have "budget \<lparr>expenses = [], seq = 1, budget = ?b\<rparr>
          = budget \<lparr>expenses = [?e], seq = 1, budget = ?b\<rparr>"
    by blast
  with add del show ?thesis by simp
qed

section \<open>Adding an expense\<close>

text \<open>
  Claim C6. An insert is valid when the store still has a key to give (the next key
  is at most the largest 64-bit integer). Every valid insert goes through, makes the
  list one record longer, and the list then holds the old records and one new record
  whose date, category, amount and note are the inputs; its key is the next key, which
  no listed record had.
\<close>

theorem add_expense_one_more:
  assumes "next_rowid s \<le> MAX_ROWID"
  shows "\<exists>s'. add_expense d c a n s = Inr s' \<and>
           length (view_all_expenses s') = length (view_all_expenses s) + 1 \<and>
           mset (view_all_expenses s') =
             add_mset \<lparr>eid = next_rowid s, date = d, category = c, amount = a, note_text = n\<rparr>
               (mset (view_all_expenses s)) \<and>
           next_rowid s \<notin> eid ` set (view_all_expenses s)"
proof -
  have "next_rowid s \<notin> eid ` set (expenses s)"
    using next_rowid_gt_eid [of _ s] by force
  then show ?thesis
    using assms by (simp add: add_expense_def view_all_expenses_def)
qed

theorem add_expense_one_more_witness:
  "next_rowid (init_db None) \<le> MAX_ROWID \<and>
   (\<exists>s'. add_expense ''2025-12-05'' ''Food'' 150 ''lunch'' (init_db None) = Inr s' \<and>
      length (view_all_expenses s') = length (view_all_expenses (init_db None)) + 1 \<and>
      mset (view_all_expenses s') =
        add_mset \<lparr>eid = 1, date = ''2025-12-05'', category = ''Food'', amount = 150,
                   note_text = ''lunch''\<rparr>
          (mset (view_all_expenses (init_db None))))"
proof -
  have h: "next_rowid (init_db None) \<le> MAX_ROWID"
    by (simp add: next_rowid_def init_db_def MAX_ROWID_def)
  have n: "next_rowid (init_db None) = 1"
    by (simp add: next_rowid_def init_db_def)
  from add_expense_one_more [OF h, of "''2025-12-05''" "''Food''" 150 "''lunch''"] h n
  show ?thesis by auto
qed

section \<open>The budget relation\<close>

lemma months_upsert_budget:
  "month ` set (upsert_budget k a rs) = insert k (month ` set rs)"
  by (induction rs) auto

lemma distinct_upsert_budget:
  "distinct (map month rs) \<Longrightarrow> distinct (map month (upsert_budget k a rs))"
proof (induction rs)
  case Nil
  then show ?case by simp
next
  case (Cons r rs)
  then show ?case using months_upsert_budget [of k a rs] by auto
qed

lemma upsert_budget_in_place:
  "k \<in> month ` set rs \<Longrightarrow> map month (upsert_budget k a rs) = map month rs"
  by (induction rs) auto

lemma filter_upsert_budget:
  "distinct (map month rs) \<Longrightarrow>
     filter (\<lambda>r. month r = k) (upsert_budget k a rs) = [\<lparr>month = k, budget_amount = a\<rparr>]"
proof (induction rs)
  case Nil
  then show ?case by simp
next
  case (Cons r rs)
  show ?case
  proof (cases "month r = k")
    case True
    with Cons.prems have "k \<notin> month ` set rs" by auto
    then have "filter (\<lambda>r. month r = k) rs = []" by (auto simp: filter_empty_conv)
    with True show ?thesis by simp
  next
    case False
    with Cons show ?thesis by simp
  qed
qed

lemma distinct_filter_le_1:
  "distinct (map f xs) \<Longrightarrow> length (filter (\<lambda>x. f x = k) xs) \<le> 1"
proof (induction xs)
  case Nil
  then show ?case by simp
next
  case (Cons x xs)
  show ?case
  proof (cases "f x = k")
    case True
    with Cons.prems have "k \<notin> f ` set xs" by auto
    then have "filter (\<lambda>x. f x = k) xs = []" by (auto simp: filter_empty_conv)
    with True show ?thesis by simp
  next
    case False
    with Cons show ?thesis by simp
  qed
qed

section \<open>What every operation preserves\<close>

lemma store_ok_add:
  assumes "store_ok s" "add_expense d c a n s = Inr s'"
  shows "store_ok s'"
proof -
  note eq = add_expense_Inr [OF assms(2)]
  have new: "next_rowid s \<notin> eid ` set (expenses s)"
    using next_rowid_gt_eid [of _ s] by force
  have le: "\<forall>e\<in>set (expenses s). eid e \<le> next_rowid s"
    using next_rowid_gt_eid [of _ s] by force
  from assms(1) new le show ?thesis
    unfolding store_ok_def eq by simp
qed

lemma store_ok_delete:
  assumes "store_ok s" "delete_expense i s = Inr (s', k)"
  shows "store_ok s'"
proof -
  from delete_expense_Inr [OF assms(2)]
  have eq: "s' = s\<lparr>expenses := filter (\<lambda>e. eid e \<noteq> i) (expenses s)\<rparr>" by simp
  from assms(1) show ?thesis
    unfolding store_ok_def eq by (simp add: distinct_map_filter)
qed

lemma store_ok_set_budget:
  "store_ok s \<Longrightarrow> store_ok (set_monthly_budget k a s)"
  by (simp add: store_ok_def set_monthly_budget_def distinct_upsert_budget)

lemma run_store_ok: "store_ok s \<Longrightarrow> store_ok (fst (run ops s))"
proof (induction ops s rule: run.induct)
  case (1 s)
  then show ?case by simp
next
  case (2 d c a n ops s)
  then show ?case by (auto split: sum.splits dest: store_ok_add)
next
  case (3 i ops s)
  then show ?case by (auto split: sum.splits dest: store_ok_delete)
next
  case (4 k a ops s)
  then show ?case by (simp add: store_ok_set_budget)
qed

lemma run_assigned:
  "sorted_wrt (<) (snd (run ops s)) \<and> (\<forall>i\<in>set (snd (run ops s)). seq s < i)"
proof (induction ops s rule: run.induct)
  case (1 s)
  show ?case by simp
next
  case (2 d c a n ops s)
  show ?case
  proof (cases "add_expense d c a n s")
    case (Inl e)
    with 2 show ?thesis by simp
  next
    case (Inr s')
    from add_expense_Inr [OF Inr] have sq: "seq s' = next_rowid s" by simp
    from 2(2) [OF Inr] sq
    have ih: "sorted_wrt (<) (snd (run ops s'))" "\<forall>i\<in>set (snd (run ops s')). next_rowid s < i"
      by simp_all
    with next_rowid_gt_seq [of s] Inr show ?thesis by fastforce
  qed
next
  case (3 i ops s)
  show ?case
  proof (cases "delete_expense i s")
    case (Inl e)
    with 3 show ?thesis by simp
  next
    case (Inr p)
    obtain s' k where p: "p = (s', k)" by (cases p)
    from delete_expense_Inr [of i s s' k] Inr p have "seq s' = seq s" by simp
    with 3(2) [OF Inr p [symmetric]] Inr p show ?thesis by simp
  qed
next
  case (4 k a ops s)
  then show ?case by (simp add: set_monthly_budget_def)
qed


lemma run_budget_distinct:
  "distinct (map month (budget s)) \<Longrightarrow> distinct (map month (budget (fst (run ops s))))"
proof (induction ops s rule: run.induct)
  case (1 s)
  then show ?case by simp
next
  case (2 d c a n ops s)
  show ?case
  proof (cases "add_expense d c a n s")
    case (Inl e)
    with 2 show ?thesis by simp
  next
    case (Inr s')
    from add_expense_Inr [OF Inr] have "budget s' = budget s" by simp
    with 2(2) [OF Inr] "2.prems" Inr show ?thesis by simp
  qed
next
  case (3 i ops s)
  show ?case
  proof (cases "delete_expense i s")
    case (Inl e)
    with 3 show ?thesis by simp
  next
    case (Inr p)
    obtain s' k where p: "p = (s', k)" by (cases p)
    from delete_expense_Inr [of i s s' k] Inr p have "budget s' = budget s" by simp
    with 3(2) [OF Inr p [symmetric]] "3.prems" Inr p show ?thesis by simp
  qed
next
  case (4 k a ops s)
  then show ?case by (simp add: set_monthly_budget_def distinct_upsert_budget)
qed

text \<open>
  Claim C3. From a budget relation with at most one record per month (such as the
  empty one of a new database), every sequence of operations leaves at most one
  record per month key. Setting a budget for a month twice leaves exactly one record
  for that month, with the latest amount; the second call adds no record (the list of
  months is unchanged) and the lookup of the summary returns the latest amount.
\<close>

theorem budget_one_row_per_month:
  assumes "distinct (map month (budget s))"
  shows "distinct (map month (budget (fst (run ops s)))) \<and>
         length (filter (\<lambda>r. month r = k) (budget (fst (run ops s)))) \<le> 1 \<and>
         filter (\<lambda>r. month r = k) (budget (set_monthly_budget k a2 (set_monthly_budget k a1 s)))
           = [\<lparr>month = k, budget_amount = a2\<rparr>] \<and>
         map month (budget (set_monthly_budget k a2 (set_monthly_budget k a1 s)))
           = map month (budget (set_monthly_budget k a1 s)) \<and>
         budget_amount_for k (set_monthly_budget k a2 (set_monthly_budget k a1 s)) = Some a2"
proof -
  have d: "distinct (map month (budget (fst (run ops s))))"
    using assms by (rule run_budget_distinct)
  have d1: "distinct (map month (upsert_budget k a1 (budget s)))"
    using assms by (rule distinct_upsert_budget)
  have f: "filter (\<lambda>r. month r = k) (upsert_budget k a2 (upsert_budget k a1 (budget s)))
             = [\<lparr>month = k, budget_amount = a2\<rparr>]"
    using d1 by (rule filter_upsert_budget)
  have m: "map month (upsert_budget k a2 (upsert_budget k a1 (budget s)))
             = map month (upsert_budget k a1 (budget s))"
    by (rule upsert_budget_in_place) (simp add: months_upsert_budget)
  from d distinct_filter_le_1 [OF d, of k] f m show ?thesis
    by (simp add: set_monthly_budget_def budget_amount_for_def)
qed

theorem budget_one_row_per_month_witness:
  "distinct (map month (budget (init_db None))) \<and>
   budget (fst (run [SetBudget ''2025-12'' 1000, Add ''2025-12-05'' ''Food'' 150 ''lunch'',
                     SetBudget ''2025-12'' 800, SetBudget ''2026-01'' 500] (init_db None)))
     = [\<lparr>month = ''2025-12'', budget_amount = 800\<rparr>, \<lparr>month = ''2026-01'', budget_amount = 500\<rparr>] \<and>
   distinct (map month (budget (fst (run [SetBudget ''2025-12'' 1000,
       Add ''2025-12-05'' ''Food'' 150 ''lunch'', SetBudget ''2025-12'' 800,
       SetBudget ''2026-01'' 500] (init_db None))))) \<and>
   filter (\<lambda>r. month r = ''2025-12'')
     (budget (set_monthly_budget ''2025-12'' 800 (set_monthly_budget ''2025-12'' 1000 (init_db None))))
     = [\<lparr>month = ''2025-12'', budget_amount = 800\<rparr>]"
proof -
  have h: "distinct (map month (budget (init_db None)))"
    by (simp add: init_db_def)
  have r: "budget (fst (run [SetBudget ''2025-12'' 1000, Add ''2025-12-05'' ''Food'' 150 ''lunch'',
                     SetBudget ''2025-12'' 800, SetBudget ''2026-01'' 500] (init_db None)))
     = [\<lparr>month = ''2025-12'', budget_amount = 800\<rparr>, \<lparr>month = ''2026-01'', budget_amount = 500\<rparr>]"
    by (simp add: init_db_def set_monthly_budget_def add_expense_def next_rowid_def MAX_ROWID_def)
  from budget_one_row_per_month [OF h, of "[SetBudget ''2025-12'' 1000,
       Add ''2025-12-05'' ''Food'' 150 ''lunch'', SetBudget ''2025-12'' 800,
       SetBudget ''2026-01'' 500]" "''2025-12''" 800 1000] h r
  show ?thesis by simp
qed

section \<open>Keys are never reused\<close>

text \<open>
  Claim C8. Over every sequence of operations on a store that satisfies the schema's
  guarantees, the keys given to new expenses are strictly increasing (hence unique),
  and each is larger than the counter at the start, so it is the key of no record
  present at the start and of none that ever existed before, deleted or not. The
  guarantees hold again at the end, so the same is true of any continuation.
\<close>

theorem keys_never_reused:
  assumes "store_ok s"
  shows "sorted_wrt (<) (snd (run ops s)) \<and> distinct (snd (run ops s)) \<and>
         (\<forall>i \<in> set (snd (run ops s)). seq s < i \<and> i \<notin> eid ` set (expenses s)) \<and>
         store_ok (fst (run ops s))"
proof -
  from run_assigned [of ops s]
  have s: "sorted_wrt (<) (snd (run ops s))" and g: "\<forall>i\<in>set (snd (run ops s)). seq s < i"
    by simp_all
  from s have d: "distinct (snd (run ops s))"
    by (simp add: strict_sorted_iff)
  have "\<forall>i\<in>set (snd (run ops s)). i \<notin> eid ` set (expenses s)"
    using g assms by (fastforce simp: store_ok_def)
  with s d g run_store_ok [OF assms, of ops] show ?thesis by simp
qed

theorem keys_never_reused_witness:
  "store_ok (init_db None) \<and>
   run [Add ''2025-12-05'' ''Food'' 150 ''lunch'', Add ''2025-12-06'' ''Travel'' 40 '''',
        Delete 2, Add ''2025-12-07'' ''Fees'' 10 ''x''] (init_db None)
     = (\<lparr>expenses = [\<lparr>eid = 1, date = ''2025-12-05'', category = ''Food'', amount = 150, note_text = ''lunch''\<rparr>,
                      \<lparr>eid = 3, date = ''2025-12-07'', category = ''Fees'', amount = 10, note_text = ''x''\<rparr>],
        seq = 3, budget = []\<rparr>, [1, 2, 3]) \<and>
   sorted_wrt (<) (snd (run [Add ''2025-12-05'' ''Food'' 150 ''lunch'', Add ''2025-12-06'' ''Travel'' 40 '''',
        Delete 2, Add ''2025-12-07'' ''Fees'' 10 ''x''] (init_db None)))"
proof -
  have h: "store_ok (init_db None)"
    by (simp add: store_ok_def init_db_def)
  have r: "run [Add ''2025-12-05'' ''Food'' 150 ''lunch'', Add ''2025-12-06'' ''Travel'' 40 '''',
        Delete 2, Add ''2025-12-07'' ''Fees'' 10 ''x''] (init_db None)
     = (\<lparr>expenses = [\<lparr>eid = 1, date = ''2025-12-05'', category = ''Food'', amount = 150, note_text = ''lunch''\<rparr>,
                      \<lparr>eid = 3, date = ''2025-12-07'', category = ''Fees'', amount = 10, note_text = ''x''\<rparr>],
        seq = 3, budget = []\<rparr>, [1, 2, 3])"
    by (simp add: init_db_def add_expense_def delete_expense_def next_rowid_def MAX_ROWID_def)
  from keys_never_reused [OF h, of "[Add ''2025-12-05'' ''Food'' 150 ''lunch'',
        Add ''2025-12-06'' ''Travel'' 40 '''', Delete 2, Add ''2025-12-07'' ''Fees'' 10 ''x'']"] h r
  show ?thesis by simp
qed


section \<open>Deleting an expense\<close>




section \<open>The category-wise summary\<close>









section \<open>The monthly total\<close>





section \<open>Dates are not validated\<close>


lemma month_rows_append:
  "month_rows now k (s\<lparr>expenses := expenses s @ [e], seq := q\<rparr>) =
     month_rows now k s @ (if strftime_Ym now (date e) = Some k then [e] else [])"
  by (simp add: month_rows_def)



end
